theory Spec2Isabelle
  imports Main "HOL-Library.Word"
begin

section \<open>Data shared by the provider and its collaborators\<close>

text \<open>
  A Go byte slice is a list of bytes, a slice of proxies a list of proxies; the nil slice
  and the empty slice are both the empty list (the code takes their length or hands them
  on). Only for \<^verbatim>\<open>schema.Proxies\<close>, which the code compares with nil, is nil kept apart.
  \<^verbatim>\<open>[16]byte\<close>, the result of \<^verbatim>\<open>md5.Sum\<close>, is a 128-bit word.
\<close>

type_synonym byte = "8 word"
type_synonym bytes = "byte list"
type_synonym digest = "128 word"

text \<open>
  Go's \<^verbatim>\<open>error\<close> values. \<open>External\<close> stands for an error made by a
  collaborator (os, ioutil, the Vehicle, yaml, ParseProxy); the other constructors are the
  errors that provider.go builds itself:
  \<^item> \<open>MissingProxiesField\<close>: \<^verbatim>\<open>errors.New("File must have a `proxies` field")\<close>
  \<^item> \<open>NoValidProxy\<close>: \<^verbatim>\<open>errors.New("File doesn't have any valid proxy")\<close>
  \<^item> \<open>ProxyIndexError idx err\<close>: \<^verbatim>\<open>fmt.Errorf("Proxy %d error: %w", idx, err)\<close>
  \<^item> \<open>NeedOneProxy\<close>: \<^verbatim>\<open>errors.New("Provider need one proxy at least")\<close>
  A Go function returning \<^verbatim>\<open>(T, error)\<close> returns a pair whose second component is
  \<open>None\<close> for the nil error.
\<close>

datatype error =
    External string
  | MissingProxiesField
  | NoValidProxy
  | ProxyIndexError nat error
  | NeedOneProxy

subsection \<open>The world outside the provider\<close>

text \<open>
  The file system, the Vehicle's source and the clock are effects; they are threaded
  through every operation as a \<open>world\<close>.
  \<^item> \<open>files\<close>: the file system. \<^verbatim>\<open>os.Stat\<close> succeeds on the paths in its domain. A
    file has a modification time and the pair that \<^verbatim>\<open>ioutil.ReadFile\<close> returns for
    it (a read can fail and still return part of the content).
  \<^item> \<open>served\<close>, \<open>nreads\<close>: \<open>served w k\<close> is the pair returned by the \<open>k\<close>-th call of
    \<^verbatim>\<open>Vehicle.Read\<close>; \<open>nreads\<close> counts the calls made so far.
  \<^item> \<open>writeErr\<close>: the error \<^verbatim>\<open>ioutil.WriteFile\<close> fails with on a path, \<open>None\<close> where
    the write goes through.
  \<^item> \<open>clock\<close>: what \<^verbatim>\<open>time.Now()\<close> returns.
\<close>

record fileNode =
  modTime :: nat
  readResult :: "bytes \<times> error option"

record world =
  files :: "string \<rightharpoonup> fileNode"
  served :: "nat \<Rightarrow> bytes \<times> error option"
  nreads :: nat
  writeErr :: "string \<Rightarrow> error option"
  clock :: nat

text \<open>\<^verbatim>\<open>os.Stat(path)\<close>: the modification time when the call succeeds.\<close>

definition osStat :: "world \<Rightarrow> string \<Rightarrow> nat option" where
  "osStat w path = (case files w path of None \<Rightarrow> None | Some f \<Rightarrow> Some (modTime f))"

text \<open>\<^verbatim>\<open>ioutil.ReadFile(path)\<close>; on a missing file it returns nil and an error.\<close>

definition ReadFile :: "world \<Rightarrow> string \<Rightarrow> bytes \<times> error option" where
  "ReadFile w path =
     (case files w path of
        None \<Rightarrow> ([], Some (External ''no such file''))
      | Some f \<Rightarrow> readResult f)"

text \<open>
  \<^verbatim>\<open>ioutil.WriteFile(path, buf, fileMode)\<close>. A write that goes through leaves a
  readable file holding exactly \<open>buf\<close>; a failing write is taken to fail before it
  touches the file.
\<close>

definition WriteFile :: "world \<Rightarrow> string \<Rightarrow> bytes \<Rightarrow> error option \<times> world" where
  "WriteFile w path buf =
     (case writeErr w path of
        Some e \<Rightarrow> (Some e, w)
      | None \<Rightarrow>
          (None, w\<lparr>files := (files w)(path \<mapsto> \<lparr>modTime = clock w, readResult = (buf, None)\<rparr>)\<rparr>))"

text \<open>
  Modelled from the spec: the \<^verbatim>\<open>Vehicle\<close> interface (its declaration is not among the
  sources). \<^verbatim>\<open>Path()\<close>, the stable local cache location, is a field; \<^verbatim>\<open>Read()\<close>
  performs the real fetch: it takes the next answer of the source from the world.
\<close>

record Vehicle =
  Path :: string

definition vehicleRead :: "world \<Rightarrow> (bytes \<times> error option) \<times> world" where
  "vehicleRead w = (served w (nreads w), w\<lparr>nreads := Suc (nreads w)\<rparr>)"

text \<open>
  The library functions provider.go calls, as parameters:
  \<^item> \<open>yamlUnmarshal buf\<close>: \<^verbatim>\<open>yaml.Unmarshal(buf, schema)\<close> on a fresh
    \<^verbatim>\<open>ProxySchema\<close>: an error, or the \<^verbatim>\<open>Proxies\<close> field afterwards, \<open>None\<close> for the
    nil slice;
  \<^item> \<open>ParseProxy mapping\<close>: \<^verbatim>\<open>outbound.ParseProxy\<close>;
  \<^item> \<open>md5Sum buf\<close>: \<^verbatim>\<open>md5.Sum\<close>.
  \<open>'m\<close> is \<^verbatim>\<open>map[string]interface{}\<close>, \<open>'p\<close> is \<^verbatim>\<open>C.Proxy\<close>.
\<close>

record ('m, 'p) deps =
  yamlUnmarshal :: "bytes \<Rightarrow> error + 'm list option"
  ParseProxy :: "'m \<Rightarrow> error + 'p"
  md5Sum :: "bytes \<Rightarrow> digest"

section \<open>ProxySetProvider\<close>

text \<open>
  Modelled from the spec: \<^verbatim>\<open>HealthCheck\<close> (healthcheck.go is not among the sources).
  Only its target list is kept; \<^verbatim>\<open>setProxy\<close> replaces the targets wholesale. The
  background activities (\<^verbatim>\<open>go hc.process()\<close>, \<^verbatim>\<open>go pp.healthCheck.check()\<close>,
  \<^verbatim>\<open>go pp.pullLoop()\<close>) are concurrent and are not part of this sequential model.
\<close>

record 'p HealthCheck =
  targets :: "'p list"

definition setProxy :: "'p HealthCheck \<Rightarrow> 'p list \<Rightarrow> 'p HealthCheck" where
  "setProxy hc ps = hc\<lparr>targets := ps\<rparr>"

text \<open>
  The struct. \<open>ticker\<close> is \<open>None\<close> for the nil pointer, \<open>updatedAt\<close> likewise.
\<close>

record 'p ProxySetProvider =
  name :: string
  vehicle :: Vehicle
  hash :: digest
  proxies :: "'p list"
  healthCheck :: "'p HealthCheck"
  ticker :: "int option"
  updatedAt :: "nat option"

definition Proxies :: "'p ProxySetProvider \<Rightarrow> 'p list" where
  "Proxies pp = proxies pp"

text \<open>
  \<^verbatim>\<open>parse\<close>: the loop over \<^verbatim>\<open>schema.Proxies\<close> with its index and its accumulator,
  then the function. The Go function returns \<^verbatim>\<open>(nil, err)\<close> on every failure.
\<close>

fun parseEntries :: "('m \<Rightarrow> error + 'p) \<Rightarrow> nat \<Rightarrow> 'm list \<Rightarrow> 'p list \<Rightarrow> 'p list \<times> error option" where
  "parseEntries P idx [] acc = (acc, None)"
| "parseEntries P idx (mapping # rest) acc =
     (case P mapping of
        Inl err \<Rightarrow> ([], Some (ProxyIndexError idx err))
      | Inr proxy \<Rightarrow> parseEntries P (Suc idx) rest (acc @ [proxy]))"

definition parse :: "('m, 'p) deps \<Rightarrow> bytes \<Rightarrow> 'p list \<times> error option" where
  "parse d buf =
     (case yamlUnmarshal d buf of
        Inl err \<Rightarrow> ([], Some err)
      | Inr None \<Rightarrow> ([], Some MissingProxiesField)
      | Inr (Some ms) \<Rightarrow>
          (case parseEntries (ParseProxy d) 0 ms [] of
             (ps, Some err) \<Rightarrow> ([], Some err)
           | (ps, None) \<Rightarrow>
               if length ps = 0 then ([], Some NoValidProxy) else (ps, None)))"

definition setProxies :: "'p ProxySetProvider \<Rightarrow> 'p list \<Rightarrow> 'p ProxySetProvider" where
  "setProxies pp ps = pp\<lparr>proxies := ps, healthCheck := setProxy (healthCheck pp) ps\<rparr>"

text \<open>
  \<^verbatim>\<open>Initial\<close>. The \<^verbatim>\<open>err\<close> that both branches of the first \<^verbatim>\<open>if\<close> assign is the one
  declared by \<^verbatim>\<open>stat, err := os.Stat(...)\<close> in the scope of the \<^verbatim>\<open>if\<close>; the outer
  \<^verbatim>\<open>var err error\<close> is still nil at \<^verbatim>\<open>if err != nil { return err }\<close>. \<open>buf\<close> is the
  outer variable in both branches. After \<^verbatim>\<open>proxies, err := pp.parse(buf)\<close> the fallback
  branch assigns \<open>buf\<close> and \<open>err\<close> and leaves \<open>proxies\<close> alone.
\<close>

definition Initial ::
  "('m, 'p) deps \<Rightarrow> 'p ProxySetProvider \<Rightarrow> world \<Rightarrow> error option \<times> 'p ProxySetProvider \<times> world" where
  "Initial d pp w0 =
     (let path = Path (vehicle pp);
          (buf1, pp1, w1) =
             (case osStat w0 path of
                Some mt \<Rightarrow> (fst (ReadFile w0 path), pp\<lparr>updatedAt := Some mt\<rparr>, w0)
              | None \<Rightarrow> (let (r, w) = vehicleRead w0 in (fst r, pp, w)));
          err0 = (None :: error option)
      in if err0 \<noteq> None then (err0, pp1, w1)
         else
           let (proxies, err1) = parse d buf1;
               (buf2, err2, w2) =
                  (if err1 \<noteq> None
                   then (let (r, w) = vehicleRead w1 in (fst r, snd r, w))
                   else (buf1, err1, w1))
           in if err1 \<noteq> None \<and> err2 \<noteq> None then (err2, pp1, w2)
              else
                let (werr, w3) = WriteFile w2 path buf2
                in if werr \<noteq> None then (werr, pp1, w3)
                   else (None, setProxies (pp1\<lparr>hash := md5Sum d buf2\<rparr>) proxies, w3))"

text \<open>\<^verbatim>\<open>pull\<close>, and \<^verbatim>\<open>Update\<close>, which is \<^verbatim>\<open>pull\<close>.\<close>

definition pull ::
  "('m, 'p) deps \<Rightarrow> 'p ProxySetProvider \<Rightarrow> world \<Rightarrow> error option \<times> 'p ProxySetProvider \<times> world" where
  "pull d pp w0 =
     (let ((buf, err), w1) = vehicleRead w0
      in if err \<noteq> None then (err, pp, w1)
         else
           let now = clock w1;
               hash' = md5Sum d buf
           in if hash pp = hash' then (None, pp\<lparr>updatedAt := Some now\<rparr>, w1)
              else
                let (proxies, perr) = parse d buf
                in if perr \<noteq> None then (perr, pp, w1)
                   else
                     let (werr, w2) = WriteFile w1 (Path (vehicle pp)) buf
                     in if werr \<noteq> None then (werr, pp, w2)
                        else (None, setProxies (pp\<lparr>updatedAt := Some now, hash := hash'\<rparr>) proxies, w2))"

definition Update ::
  "('m, 'p) deps \<Rightarrow> 'p ProxySetProvider \<Rightarrow> world \<Rightarrow> error option \<times> 'p ProxySetProvider \<times> world" where
  "Update d pp w = pull d pp w"

text \<open>
  Two names for stating properties of \<^verbatim>\<open>Initial\<close>: the buffer its first read step
  leaves in \<open>buf\<close> (from the cache file when \<^verbatim>\<open>os.Stat\<close> succeeds, from the Vehicle
  otherwise), and the answer of the Vehicle to the read of the fallback branch (the
  Vehicle's next answer, which is its second when the first step already read from it).
\<close>

definition Initial_firstBuf :: "'p ProxySetProvider \<Rightarrow> world \<Rightarrow> bytes" where
  "Initial_firstBuf pp w =
     (case osStat w (Path (vehicle pp)) of
        Some mt \<Rightarrow> fst (ReadFile w (Path (vehicle pp)))
      | None \<Rightarrow> fst (fst (vehicleRead w)))"

definition Initial_fallbackRead :: "'p ProxySetProvider \<Rightarrow> world \<Rightarrow> bytes \<times> error option" where
  "Initial_fallbackRead pp w =
     (case osStat w (Path (vehicle pp)) of
        Some mt \<Rightarrow> fst (vehicleRead w)
      | None \<Rightarrow> fst (vehicleRead (snd (vehicleRead w))))"

text \<open>
  \<^verbatim>\<open>NewProxySetProvider\<close>: the zero hash, the empty list, no \<open>updatedAt\<close>; a ticker
  when the interval is not zero. \<^verbatim>\<open>time.NewTicker\<close> panics on a negative duration:
  the result is \<open>None\<close> then.
\<close>

definition NewProxySetProvider ::
  "string \<Rightarrow> int \<Rightarrow> Vehicle \<Rightarrow> 'p HealthCheck \<Rightarrow> 'p ProxySetProvider option" where
  "NewProxySetProvider nm interval v hc =
     (if interval < 0 then None
      else Some \<lparr>name = nm, vehicle = v, hash = 0, proxies = [], healthCheck = hc,
                 ticker = (if interval \<noteq> 0 then Some interval else None), updatedAt = None\<rparr>)"

section \<open>CompatibleProvider\<close>

text \<open>The fields carry the prefix \<open>cp_\<close>, the names being taken by the record above.\<close>

record 'p CompatibleProvider =
  cp_name :: string
  cp_healthCheck :: "'p HealthCheck"
  cp_proxies :: "'p list"

definition NewCompatibleProvider ::
  "string \<Rightarrow> 'p list \<Rightarrow> 'p HealthCheck \<Rightarrow> 'p CompatibleProvider option \<times> error option" where
  "NewCompatibleProvider nm ps hc =
     (if length ps = 0 then (None, Some NeedOneProxy)
      else (Some \<lparr>cp_name = nm, cp_healthCheck = hc, cp_proxies = ps\<rparr>, None))"

text \<open>The methods return their error and the receiver as the call leaves it.\<close>

definition cp_Reload :: "'p CompatibleProvider \<Rightarrow> error option \<times> 'p CompatibleProvider" where
  "cp_Reload cp = (None, cp)"

definition cp_Update :: "'p CompatibleProvider \<Rightarrow> error option \<times> 'p CompatibleProvider" where
  "cp_Update cp = (None, cp)"

definition cp_Initial :: "'p CompatibleProvider \<Rightarrow> error option \<times> 'p CompatibleProvider" where
  "cp_Initial cp = (None, cp)"

definition cp_Proxies :: "'p CompatibleProvider \<Rightarrow> 'p list" where
  "cp_Proxies cp = cp_proxies cp"

section \<open>parseVmessAddr\<close>

text \<open>
  \<^verbatim>\<open>C.Metadata\<close> and \<^verbatim>\<open>vmess.DstAddr\<close>, with the fields the function touches
  (prefixed, both structs having an \<^verbatim>\<open>AddrType\<close>). \<^verbatim>\<open>uint\<close> is taken at 64 bits.
  The constants of the packages \<^verbatim>\<open>constant\<close> and \<^verbatim>\<open>vmess\<close> and the library
  functions \<^verbatim>\<open>net.IP.To4\<close>, \<^verbatim>\<open>net.IP.To16\<close> and \<^verbatim>\<open>strconv.Atoi\<close> (its value; the
  code drops its error) are parameters.
\<close>

record Metadata =
  md_NetWork :: int
  md_AddrType :: int
  md_DstIP :: bytes
  md_DstPort :: string
  md_Host :: string

record DstAddr =
  da_UDP :: bool
  da_AddrType :: byte
  da_Addr :: bytes
  da_Port :: "64 word"

record vmess_env =
  C_AtypIPv4 :: int
  C_AtypIPv6 :: int
  C_AtypDomainName :: int
  C_UDP :: int
  vmess_AtypIPv4 :: byte
  vmess_AtypIPv6 :: byte
  vmess_AtypDomainName :: byte
  To4 :: "bytes \<Rightarrow> bytes"
  To16 :: "bytes \<Rightarrow> bytes"
  Atoi :: "string \<Rightarrow> int"

text \<open>Go's \<^verbatim>\<open>copy(dst, src)\<close>: as many elements as both slices have.\<close>

definition copy :: "'a list \<Rightarrow> 'a list \<Rightarrow> 'a list" where
  "copy dst src = take (length dst) src @ drop (length src) dst"

definition byte_of_char :: "char \<Rightarrow> byte" where
  "byte_of_char c = of_nat (of_char c)"

definition parseVmessAddr :: "vmess_env \<Rightarrow> Metadata \<Rightarrow> DstAddr" where
  "parseVmessAddr E metadata =
     (let (addrType, addr) =
            (if md_AddrType metadata = C_AtypIPv4 E
             then (vmess_AtypIPv4 E, copy (replicate 4 0) (To4 E (md_DstIP metadata)))
             else if md_AddrType metadata = C_AtypIPv6 E
             then (vmess_AtypIPv6 E, copy (replicate 16 0) (To16 E (md_DstIP metadata)))
             else if md_AddrType metadata = C_AtypDomainName E
             then (vmess_AtypDomainName E,
                   (of_nat (length (md_Host metadata)) :: byte)
                     # copy (replicate (length (md_Host metadata)) 0)
                         (map byte_of_char (md_Host metadata)))
             else (0, []));
          port = Atoi E (md_DstPort metadata)
      in \<lparr>da_UDP = (md_NetWork metadata = C_UDP E), da_AddrType = addrType,
          da_Addr = addr, da_Port = word_of_int port\<rparr>)"

section \<open>A small instance of the library functions, for running the model\<close>

text \<open>
  A toy document format standing in for YAML in the worked examples: the empty buffer has
  no \<^verbatim>\<open>proxies\<close> field, a buffer starting with byte 1 carries the list of the bytes
  that follow, any other buffer is a syntax error. An entry is a byte; the toy
  \<^verbatim>\<open>ParseProxy\<close> rejects the entry 0 and names a proxy by the entry's number. The toy
  digest interprets the buffer as a little-endian numeral, with a leading one bit.
\<close>

fun toy_unmarshal :: "bytes \<Rightarrow> error + nat list option" where
  "toy_unmarshal [] = Inr None"
| "toy_unmarshal (b # bs) =
     (if b = 1 then Inr (Some (map unat bs)) else Inl (External ''yaml: syntax error''))"

definition toy_ParseProxy :: "nat \<Rightarrow> error + nat" where
  "toy_ParseProxy m = (if m = 0 then Inl (External ''unsupported proxy'') else Inr m)"

fun toy_digest :: "bytes \<Rightarrow> nat" where
  "toy_digest [] = 1"
| "toy_digest (b # bs) = unat b + 256 * toy_digest bs"

definition toy :: "(nat, nat) deps" where
  "toy = \<lparr>yamlUnmarshal = toy_unmarshal, ParseProxy = toy_ParseProxy,
          md5Sum = (\<lambda>buf. of_nat (toy_digest buf))\<rparr>"

text \<open>
  The provider that \<^verbatim>\<open>NewProxySetProvider\<close> builds for the cache path
  \<open>cache.yaml\<close>, no refresh interval and a health check with no targets yet.
\<close>

definition fresh :: "nat ProxySetProvider" where
  "fresh = \<lparr>name = ''p'', vehicle = \<lparr>Path = ''cache.yaml''\<rparr>, hash = 0, proxies = [],
            healthCheck = \<lparr>targets = []\<rparr>, ticker = None, updatedAt = None\<rparr>"

text \<open>
  A world whose cache file holds \<open>cached\<close>, whose Vehicle answers every read with
  \<open>remote\<close>, and where writes go through.
\<close>

definition world_of :: "(bytes \<times> error option) option \<Rightarrow> (bytes \<times> error option) \<Rightarrow> world" where
  "world_of cached remote =
     \<lparr>files = (case cached of
                 None \<Rightarrow> Map.empty
               | Some r \<Rightarrow> [''cache.yaml'' \<mapsto> \<lparr>modTime = 7, readResult = r\<rparr>]),
      served = (\<lambda>k. remote), nreads = 0, writeErr = (\<lambda>p. None), clock = 100\<rparr>"

text \<open>
  The provider after a first successful \<^verbatim>\<open>Initial\<close> from a Vehicle serving the
  document \<open>[1, 5, 6]\<close> with no cache file, and a world in which every write fails.
\<close>

definition loaded :: "nat ProxySetProvider" where
  "loaded = fst (snd (Initial toy fresh (world_of None ([1, 5, 6], None))))"

definition readonly :: "world \<Rightarrow> world" where
  "readonly w = w\<lparr>writeErr := (\<lambda>p. Some (External ''read-only file system''))\<rparr>"

text \<open>
  An instance of the constants and library functions of \<^verbatim>\<open>parseVmessAddr\<close> for the
  worked examples.
\<close>

definition toy_env :: vmess_env where
  "toy_env = \<lparr>C_AtypIPv4 = 1, C_AtypIPv6 = 4, C_AtypDomainName = 3, C_UDP = 1,
      vmess_AtypIPv4 = 1, vmess_AtypIPv6 = 3, vmess_AtypDomainName = 2,
      To4 = (\<lambda>ip. if length ip = 4 then ip else []),
      To16 = (\<lambda>ip. if length ip = 16 then ip else []),
      Atoi = (\<lambda>s. if s = ''443'' then 443 else 0)\<rparr>"

section \<open>Properties\<close>

subsection \<open>Parsing\<close>

lemma parseEntries_ok:
  "map P ms = map Inr qs \<Longrightarrow> parseEntries P i ms acc = (acc @ qs, None)"
proof (induction ms arbitrary: i acc qs)
  case Nil
  then show ?case by simp
next
  case (Cons m ms)
  then obtain q qs' where qs: "qs = q # qs'" "P m = Inr q" "map P ms = map Inr qs'"
    by (cases qs) auto
  with Cons.IH [of qs' "Suc i" "acc @ [q]"] show ?case by simp
qed

lemma parseEntries_fail:
  "map P pre = map Inr qs \<Longrightarrow> P m = Inl e \<Longrightarrow>
   parseEntries P i (pre @ m # post) acc = ([], Some (ProxyIndexError (i + length pre) e))"
proof (induction pre arbitrary: i acc qs)
  case Nil
  then show ?case by simp
next
  case (Cons a pre)
  then obtain q qs' where qs: "qs = q # qs'" "P a = Inr q" "map P pre = map Inr qs'"
    by (cases qs) auto
  with Cons.IH [of qs' "Suc i" "acc @ [q]"] Cons.prems(2) show ?case by simp
qed

lemma parseEntries_None_D:
  "parseEntries P i ms acc = (ps, None) \<Longrightarrow> \<exists>qs. ps = acc @ qs \<and> map P ms = map Inr qs"
proof (induction ms arbitrary: i acc)
  case Nil
  then show ?case by simp
next
  case (Cons m ms)
  show ?case
  proof (cases "P m")
    case (Inl e)
    with Cons.prems show ?thesis by simp
  next
    case (Inr q)
    with Cons.prems have "parseEntries P (Suc i) ms (acc @ [q]) = (ps, None)" by simp
    from Cons.IH [OF this] obtain qs where "ps = (acc @ [q]) @ qs" "map P ms = map Inr qs"
      by blast
    with Inr have "ps = acc @ (q # qs) \<and> map P (m # ms) = map Inr (q # qs)" by simp
    then show ?thesis by blast
  qed
qed

lemma parse_error_nil: "snd (parse d buf) \<noteq> None \<Longrightarrow> fst (parse d buf) = []"
  by (auto simp: parse_def split: sum.splits option.splits prod.splits if_splits)

lemma parse_ok_nonempty: "snd (parse d buf) = None \<Longrightarrow> fst (parse d buf) \<noteq> []"
  by (auto simp: parse_def split: sum.splits option.splits prod.splits if_splits)

lemma parse_ok_D:
  assumes "parse d buf = (ps, None)"
  shows "ps \<noteq> [] \<and> (\<exists>ms. yamlUnmarshal d buf = Inr (Some ms) \<and> map (ParseProxy d) ms = map Inr ps)"
proof -
  from assms obtain ms where u: "yamlUnmarshal d buf = Inr (Some ms)"
    by (auto simp: parse_def split: sum.splits option.splits)
  with assms have pe: "parseEntries (ParseProxy d) 0 ms [] = (ps, None)" and ne: "ps \<noteq> []"
    by (auto simp: parse_def split: prod.splits option.splits if_splits)
  from parseEntries_None_D [OF pe] have "map (ParseProxy d) ms = map Inr ps" by simp
  with u ne show ?thesis by blast
qed

lemma parse_missing_field:
  "yamlUnmarshal d buf = Inr None \<Longrightarrow> parse d buf = ([], Some MissingProxiesField)"
  by (simp add: parse_def)

lemma parse_empty_list:
  "yamlUnmarshal d buf = Inr (Some []) \<Longrightarrow> parse d buf = ([], Some NoValidProxy)"
  by (simp add: parse_def)

lemma parse_entry_error:
  assumes "yamlUnmarshal d buf = Inr (Some (pre @ m # post))"
    and "map (ParseProxy d) pre = map Inr qs" and "ParseProxy d m = Inl e"
  shows "parse d buf = ([], Some (ProxyIndexError (length pre) e))"
proof -
  have "parseEntries (ParseProxy d) 0 (pre @ m # post) [] =
      ([], Some (ProxyIndexError (0 + length pre) e))"
    by (rule parseEntries_fail [OF assms(2,3)])
  then show ?thesis
    by (simp add: parse_def assms(1))
qed

lemma parse_all_ok:
  assumes "yamlUnmarshal d buf = Inr (Some ms)"
    and "map (ParseProxy d) ms = map Inr ps" and "ms \<noteq> []"
  shows "parse d buf = (ps, None)"
proof -
  have "parseEntries (ParseProxy d) 0 ms [] = ([] @ ps, None)"
    by (rule parseEntries_ok [OF assms(2)])
  moreover from assms(2,3) have "ps \<noteq> []" by auto
  ultimately show ?thesis
    by (simp add: parse_def assms(1))
qed

subsection \<open>The branches of pull\<close>

lemma pull_fetch_error:
  "snd (served w (nreads w)) = Some e \<Longrightarrow>
   pull d pp w = (Some e, pp, w\<lparr>nreads := Suc (nreads w)\<rparr>)"
  by (cases "served w (nreads w)") (simp add: pull_def vehicleRead_def)

lemma pull_same_digest:
  "served w (nreads w) = (buf, None) \<Longrightarrow> hash pp = md5Sum d buf \<Longrightarrow>
   pull d pp w = (None, pp\<lparr>updatedAt := Some (clock w)\<rparr>, w\<lparr>nreads := Suc (nreads w)\<rparr>)"
  by (simp add: pull_def vehicleRead_def Let_def)

lemma pull_parse_error:
  "served w (nreads w) = (buf, None) \<Longrightarrow> hash pp \<noteq> md5Sum d buf \<Longrightarrow>
   snd (parse d buf) = Some e \<Longrightarrow>
   pull d pp w = (Some e, pp, w\<lparr>nreads := Suc (nreads w)\<rparr>)"
  by (cases "parse d buf") (simp add: pull_def vehicleRead_def Let_def)

lemma pull_write_error:
  "served w (nreads w) = (buf, None) \<Longrightarrow> hash pp \<noteq> md5Sum d buf \<Longrightarrow>
   snd (parse d buf) = None \<Longrightarrow> writeErr w (Path (vehicle pp)) = Some e \<Longrightarrow>
   pull d pp w = (Some e, pp, w\<lparr>nreads := Suc (nreads w)\<rparr>)"
  by (cases "parse d buf") (simp add: pull_def vehicleRead_def WriteFile_def Let_def)

lemma pull_publish:
  "served w (nreads w) = (buf, None) \<Longrightarrow> hash pp \<noteq> md5Sum d buf \<Longrightarrow>
   parse d buf = (ps, None) \<Longrightarrow> writeErr w (Path (vehicle pp)) = None \<Longrightarrow>
   pull d pp w =
     (None,
      pp\<lparr>hash := md5Sum d buf, proxies := ps, healthCheck := (healthCheck pp)\<lparr>targets := ps\<rparr>,
         updatedAt := Some (clock w)\<rparr>,
      w\<lparr>files := (files w)(Path (vehicle pp) \<mapsto> \<lparr>modTime = clock w, readResult = (buf, None)\<rparr>),
        nreads := Suc (nreads w)\<rparr>)"
  by (simp add: pull_def vehicleRead_def WriteFile_def setProxies_def setProxy_def Let_def)

lemma pull_vehicle: "vehicle (fst (snd (pull d pp w))) = vehicle pp"
  by (cases "served w (nreads w)"; cases "parse d (fst (served w (nreads w)))";
      cases "writeErr w (Path (vehicle pp))";
      simp add: pull_def vehicleRead_def WriteFile_def setProxies_def Let_def)

lemma pull_valid_hash:
  assumes "served w (nreads w) = (buf, None)" and "snd (parse d buf) = None"
    and "writeErr w (Path (vehicle pp)) = None"
  shows "fst (pull d pp w) = None \<and> hash (fst (snd (pull d pp w))) = md5Sum d buf"
proof (cases "hash pp = md5Sum d buf")
  case True
  with pull_same_digest [OF assms(1) True] show ?thesis by simp
next
  case False
  obtain ps where "parse d buf = (ps, None)"
    using assms(2) by (cases "parse d buf") simp
  from pull_publish [OF assms(1) False this assms(3)] show ?thesis by simp
qed

text \<open>In \<^verbatim>\<open>pull\<close> the hash changes only together with the publication of a parsed list.\<close>

lemma pull_hash_changed_D:
  assumes "hash (fst (snd (pull d pp w))) \<noteq> hash pp"
  shows "fst (pull d pp w) = None
     \<and> snd (parse d (fst (served w (nreads w)))) = None
     \<and> proxies (fst (snd (pull d pp w))) = fst (parse d (fst (served w (nreads w))))
     \<and> proxies (fst (snd (pull d pp w))) \<noteq> []
     \<and> hash (fst (snd (pull d pp w))) = md5Sum d (fst (served w (nreads w)))"
  using assms parse_ok_nonempty [of d "fst (served w (nreads w))"]
  by (cases "served w (nreads w)"; cases "parse d (fst (served w (nreads w)))";
      cases "writeErr w (Path (vehicle pp))";
      simp add: pull_def vehicleRead_def WriteFile_def setProxies_def Let_def split: if_splits)

subsection \<open>The branches of Initial\<close>

lemmas io_defs = osStat_def ReadFile_def vehicleRead_def WriteFile_def
  Initial_firstBuf_def Initial_fallbackRead_def

lemma Initial_parse_ok:
  assumes "parse d (Initial_firstBuf pp w) = (ps, None)"
    and "writeErr w (Path (vehicle pp)) = None"
  shows "fst (Initial d pp w) = None"
    and "proxies (fst (snd (Initial d pp w))) = ps"
    and "targets (healthCheck (fst (snd (Initial d pp w)))) = ps"
    and "hash (fst (snd (Initial d pp w))) = md5Sum d (Initial_firstBuf pp w)"
    and "files (snd (snd (Initial d pp w))) (Path (vehicle pp)) =
           Some \<lparr>modTime = clock w, readResult = (Initial_firstBuf pp w, None)\<rparr>"
  using assms
  by (cases "files w (Path (vehicle pp))";
      simp add: Initial_def io_defs setProxies_def setProxy_def Let_def)+

lemma Initial_fallback_error:
  assumes "snd (parse d (Initial_firstBuf pp w)) \<noteq> None"
    and "snd (Initial_fallbackRead pp w) = Some e"
  shows "fst (Initial d pp w) = Some e"
    and "proxies (fst (snd (Initial d pp w))) = proxies pp"
    and "hash (fst (snd (Initial d pp w))) = hash pp"
    and "healthCheck (fst (snd (Initial d pp w))) = healthCheck pp"
    and "files (snd (snd (Initial d pp w))) = files w"
  using assms
  by (cases "files w (Path (vehicle pp))"; cases "parse d (Initial_firstBuf pp w)";
      simp add: Initial_def io_defs setProxies_def setProxy_def Let_def)+

lemma Initial_fallback_ok:
  assumes "snd (parse d (Initial_firstBuf pp w)) \<noteq> None"
    and "Initial_fallbackRead pp w = (b2, None)"
    and "writeErr w (Path (vehicle pp)) = None"
  shows "fst (Initial d pp w) = None"
    and "proxies (fst (snd (Initial d pp w))) = []"
    and "hash (fst (snd (Initial d pp w))) = md5Sum d b2"
    and "files (snd (snd (Initial d pp w))) (Path (vehicle pp)) =
           Some \<lparr>modTime = clock w, readResult = (b2, None)\<rparr>"
  using assms parse_error_nil [of d "Initial_firstBuf pp w"]
  by (cases "files w (Path (vehicle pp))"; cases "parse d (Initial_firstBuf pp w)";
      simp add: Initial_def io_defs setProxies_def setProxy_def Let_def)+

lemma Initial_error_cases:
  assumes "fst (Initial d pp w) = Some e"
  shows "snd (parse d (Initial_firstBuf pp w)) \<noteq> None \<and> snd (Initial_fallbackRead pp w) = Some e
       \<or> writeErr w (Path (vehicle pp)) = Some e"
  using assms
  by (cases "files w (Path (vehicle pp))"; cases "parse d (Initial_firstBuf pp w)";
      cases "writeErr w (Path (vehicle pp))";
      simp add: Initial_def io_defs setProxies_def setProxy_def Let_def split: if_splits)

lemma Initial_cached_error_irrelevant:
  assumes "files w (Path (vehicle pp)) = Some f"
  shows "fst (Initial d pp (w\<lparr>files := (files w)(Path (vehicle pp) \<mapsto>
              f\<lparr>readResult := (fst (readResult f), None)\<rparr>)\<rparr>)) = fst (Initial d pp w)"
    and "fst (snd (Initial d pp (w\<lparr>files := (files w)(Path (vehicle pp) \<mapsto>
              f\<lparr>readResult := (fst (readResult f), None)\<rparr>)\<rparr>))) = fst (snd (Initial d pp w))"
  using assms
  by (cases "parse d (fst (readResult f))"; cases "served w (nreads w)";
      cases "writeErr w (Path (vehicle pp))";
      simp add: Initial_def io_defs setProxies_def setProxy_def Let_def)+

lemma Initial_uncached_error_irrelevant:
  assumes "files w (Path (vehicle pp)) = None"
  shows "fst (Initial d pp (w\<lparr>served := (served w)(nreads w := (fst (served w (nreads w)), None))\<rparr>))
           = fst (Initial d pp w)"
    and "fst (snd (Initial d pp
            (w\<lparr>served := (served w)(nreads w := (fst (served w (nreads w)), None))\<rparr>)))
           = fst (snd (Initial d pp w))"
  using assms
  by (cases "parse d (fst (served w (nreads w)))"; cases "served w (Suc (nreads w))";
      cases "writeErr w (Path (vehicle pp))";
      simp add: Initial_def io_defs setProxies_def setProxy_def Let_def)+

subsection \<open>The worked examples\<close>

lemmas toy_defs = toy_def fresh_def world_of_def toy_ParseProxy_def

lemma fresh_is_new:
  "NewProxySetProvider ''p'' 0 \<lparr>Path = ''cache.yaml''\<rparr> \<lparr>targets = []\<rparr> = Some fresh"
  by (simp add: NewProxySetProvider_def fresh_def)

lemma loaded_eq:
  "loaded = fresh\<lparr>hash := md5Sum toy [1, 5, 6], proxies := [5, 6],
      healthCheck := \<lparr>targets = [5, 6]\<rparr>\<rparr>"
  by (simp add: loaded_def toy_defs Initial_def parse_def setProxies_def setProxy_def io_defs)

section \<open>The claims\<close>

subsection \<open>Initial\<close>

text \<open>
  C1. The claim: when the cache file fails to parse, \<^verbatim>\<open>Initial\<close> fetches from the Vehicle
  and parses the fetched bytes; it publishes the proxies parsed from them, and returns an
  error when the fetched bytes fail to parse too. The code fetches and never parses what
  it fetched. Here the cache file holds a document with a syntax error and the Vehicle
  serves \<open>[1, 5, 6]\<close>, which parses to the proxies \<open>[5, 6]\<close>: \<^verbatim>\<open>Initial\<close> returns nil,
  rewrites the cache with the fetched bytes, stores their digest, and publishes the empty
  list left by the failed parse. With a Vehicle serving a second broken document,
  \<^verbatim>\<open>Initial\<close> returns nil as well.
\<close>

theorem C1_fallback_publishes_without_parsing:
  "snd (parse toy [2]) = Some (External ''yaml: syntax error'')
   \<and> parse toy [1, 5, 6] = ([5, 6], None)
   \<and> Initial toy fresh (world_of (Some ([2], None)) ([1, 5, 6], None)) =
       (None,
        fresh\<lparr>hash := md5Sum toy [1, 5, 6], proxies := [], updatedAt := Some 7\<rparr>,
        (world_of (Some ([2], None)) ([1, 5, 6], None))
          \<lparr>files := [''cache.yaml'' \<mapsto> \<lparr>modTime = 100, readResult = ([1, 5, 6], None)\<rparr>],
           nreads := 1\<rparr>)
   \<and> snd (parse toy [3]) = Some (External ''yaml: syntax error'')
   \<and> fst (Initial toy fresh (world_of (Some ([2], None)) ([3], None))) = None"
  by (simp add: toy_defs io_defs parse_def Initial_def setProxies_def setProxy_def Let_def)

text \<open>
  C2. The claim: after every \<^verbatim>\<open>Initial\<close> that returns nil, \<^verbatim>\<open>Proxies()\<close> is non-empty
  and the hash is the digest of the buffer the published list was parsed from. Here the
  cache file is empty (no \<^verbatim>\<open>proxies\<close> field) and the Vehicle serves \<open>[1, 9]\<close>:
  \<^verbatim>\<open>Initial\<close> returns nil, \<^verbatim>\<open>Proxies()\<close> is empty, and the hash is the digest of a
  buffer that was never parsed.
\<close>

theorem C2_successful_Initial_with_empty_list:
  "fst (Initial toy fresh (world_of (Some ([], None)) ([1, 9], None))) = None
   \<and> Proxies (fst (snd (Initial toy fresh (world_of (Some ([], None)) ([1, 9], None))))) = []
   \<and> hash (fst (snd (Initial toy fresh (world_of (Some ([], None)) ([1, 9], None)))))
       = md5Sum toy [1, 9]
   \<and> parse toy [1, 9] = ([9], None)"
  by (simp add: toy_defs io_defs parse_def Initial_def setProxies_def setProxy_def Proxies_def Let_def)

text \<open>
  C3. The claim: the hash is never updated on a path where no non-empty parsed list is
  then published. Here there is no cache file and the Vehicle serves \<open>[1, 0]\<close>, whose
  only entry is rejected by \<^verbatim>\<open>ParseProxy\<close>: \<^verbatim>\<open>Initial\<close> reads it, fails to parse it,
  reads it again, and stores its digest; the published list stays empty.
\<close>

theorem C3_hash_updated_without_parsed_list:
  "snd (parse toy [1, 0]) = Some (ProxyIndexError 0 (External ''unsupported proxy''))
   \<and> fst (Initial toy fresh (world_of None ([1, 0], None))) = None
   \<and> hash fresh = 0
   \<and> hash (fst (snd (Initial toy fresh (world_of None ([1, 0], None))))) = 65537
   \<and> proxies (fst (snd (Initial toy fresh (world_of None ([1, 0], None))))) = []"
  by (simp add: toy_defs io_defs parse_def Initial_def setProxies_def setProxy_def Let_def)

text \<open>
  C10. In \<^verbatim>\<open>Initial\<close> the error of the first read (of the cache file, or of the Vehicle
  when there is no cache file) has no effect: the returned error and the provider are the
  same as if that read had returned the same buffer and no error. The buffer of a failed
  read goes on into \<^verbatim>\<open>parse\<close>: when it parses and the write goes through,
  \<^verbatim>\<open>Initial\<close> returns nil and publishes it. Whenever \<^verbatim>\<open>Initial\<close> returns an error,
  it is the error of the fallback \<^verbatim>\<open>Vehicle.Read\<close> (reached because the first buffer did
  not parse) or the error of \<^verbatim>\<open>ioutil.WriteFile\<close>.
\<close>

theorem C10_first_read_error_shadowed:
  "(files w (Path (vehicle pp)) = Some f \<longrightarrow>
      (let w' = w\<lparr>files := (files w)(Path (vehicle pp) \<mapsto>
                     f\<lparr>readResult := (fst (readResult f), None)\<rparr>)\<rparr>
       in fst (Initial d pp w) = fst (Initial d pp w')
        \<and> fst (snd (Initial d pp w)) = fst (snd (Initial d pp w'))))
   \<and> (files w (Path (vehicle pp)) = None \<longrightarrow>
      (let w' = w\<lparr>served := (served w)(nreads w := (fst (served w (nreads w)), None))\<rparr>
       in fst (Initial d pp w) = fst (Initial d pp w')
        \<and> fst (snd (Initial d pp w)) = fst (snd (Initial d pp w'))))
   \<and> (snd (parse d (Initial_firstBuf pp w)) = None \<and> writeErr w (Path (vehicle pp)) = None \<longrightarrow>
        fst (Initial d pp w) = None
        \<and> Proxies (fst (snd (Initial d pp w))) = fst (parse d (Initial_firstBuf pp w)))
   \<and> (fst (Initial d pp w) = Some e \<longrightarrow>
        snd (parse d (Initial_firstBuf pp w)) \<noteq> None \<and> snd (Initial_fallbackRead pp w) = Some e
        \<or> writeErr w (Path (vehicle pp)) = Some e)"
proof (intro conjI impI)
  assume "files w (Path (vehicle pp)) = Some f"
  from Initial_cached_error_irrelevant [OF this, of d]
  show "let w' = w\<lparr>files := (files w)(Path (vehicle pp) \<mapsto>
                     f\<lparr>readResult := (fst (readResult f), None)\<rparr>)\<rparr>
       in fst (Initial d pp w) = fst (Initial d pp w')
        \<and> fst (snd (Initial d pp w)) = fst (snd (Initial d pp w'))"
    by (simp add: Let_def)
next
  assume "files w (Path (vehicle pp)) = None"
  from Initial_uncached_error_irrelevant [OF this, of d]
  show "let w' = w\<lparr>served := (served w)(nreads w := (fst (served w (nreads w)), None))\<rparr>
       in fst (Initial d pp w) = fst (Initial d pp w')
        \<and> fst (snd (Initial d pp w)) = fst (snd (Initial d pp w'))"
    by (simp add: Let_def)
next
  assume h: "snd (parse d (Initial_firstBuf pp w)) = None \<and> writeErr w (Path (vehicle pp)) = None"
  then have p: "parse d (Initial_firstBuf pp w) = (fst (parse d (Initial_firstBuf pp w)), None)"
    by (cases "parse d (Initial_firstBuf pp w)") simp
  from Initial_parse_ok(1) [OF p] h show "fst (Initial d pp w) = None" by simp
  from Initial_parse_ok(2) [OF p] h
  show "Proxies (fst (snd (Initial d pp w))) = fst (parse d (Initial_firstBuf pp w))"
    by (simp add: Proxies_def)
next
  assume "fst (Initial d pp w) = Some e"
  then show "snd (parse d (Initial_firstBuf pp w)) \<noteq> None \<and> snd (Initial_fallbackRead pp w) = Some e
        \<or> writeErr w (Path (vehicle pp)) = Some e"
    by (rule Initial_error_cases)
qed

theorem C10_witness:
  "fst (Initial toy fresh
          (world_of (Some ([1, 5], Some (External ''input/output error'')))
             ([], Some (External ''timeout'')))) = None
   \<and> Proxies (fst (snd (Initial toy fresh
          (world_of (Some ([1, 5], Some (External ''input/output error'')))
             ([], Some (External ''timeout'')))))) = [5]
   \<and> fst (Initial toy fresh
          (world_of (Some ([1, 5], Some (External ''input/output error'')))
             ([], Some (External ''timeout'')))) =
       fst (Initial toy fresh (world_of (Some ([1, 5], None)) ([], Some (External ''timeout''))))
   \<and> fst (Initial toy fresh (world_of None ([1, 5], Some (External ''timeout'')))) =
       fst (Initial toy fresh
         ((world_of None ([1, 5], Some (External ''timeout'')))
            \<lparr>served := (\<lambda>k. ([1, 5], Some (External ''timeout'')))(0 := ([1, 5], None))\<rparr>))
   \<and> fst (Initial toy fresh (world_of None ([], Some (External ''timeout'')))) =
        Some (External ''timeout'')
   \<and> snd (parse toy (Initial_firstBuf fresh (world_of None ([], Some (External ''timeout''))))) =
        Some MissingProxiesField
   \<and> snd (Initial_fallbackRead fresh (world_of None ([], Some (External ''timeout'')))) =
        Some (External ''timeout'')
   \<and> writeErr (world_of None ([], Some (External ''timeout''))) (Path (vehicle fresh)) = None"
proof -
  note T = C10_first_read_error_shadowed
  have h1: "files (world_of (Some ([1, 5], Some (External ''input/output error'')))
                ([], Some (External ''timeout''))) (Path (vehicle fresh)) =
            Some \<lparr>modTime = 7, readResult = ([1, 5], Some (External ''input/output error''))\<rparr>"
    by (simp add: toy_defs)
  have h2: "files (world_of None ([1, 5], Some (External ''timeout''))) (Path (vehicle fresh)) = None"
    by (simp add: toy_defs)
  have h3: "snd (parse toy (Initial_firstBuf fresh
                (world_of (Some ([1, 5], Some (External ''input/output error'')))
                   ([], Some (External ''timeout''))))) = None
          \<and> writeErr (world_of (Some ([1, 5], Some (External ''input/output error'')))
                   ([], Some (External ''timeout''))) (Path (vehicle fresh)) = None"
    by (simp add: toy_defs io_defs parse_def)
  have h4: "fst (Initial toy fresh (world_of None ([], Some (External ''timeout'')))) =
        Some (External ''timeout'')"
    by (simp add: toy_defs io_defs parse_def Initial_def)
  have c1: "fst (Initial toy fresh
          (world_of (Some ([1, 5], Some (External ''input/output error'')))
             ([], Some (External ''timeout'')))) =
       fst (Initial toy fresh (world_of (Some ([1, 5], None)) ([], Some (External ''timeout''))))"
    using T [THEN conjunct1, rule_format, OF h1, of toy]
    by (simp add: Let_def world_of_def fresh_def)
  have c2: "fst (Initial toy fresh (world_of None ([1, 5], Some (External ''timeout'')))) =
       fst (Initial toy fresh
         ((world_of None ([1, 5], Some (External ''timeout'')))
            \<lparr>served := (\<lambda>k. ([1, 5], Some (External ''timeout'')))(0 := ([1, 5], None))\<rparr>))"
    using T [THEN conjunct2, THEN conjunct1, rule_format, OF h2, of toy]
    by (simp add: Let_def world_of_def)
  have c3: "fst (Initial toy fresh
          (world_of (Some ([1, 5], Some (External ''input/output error'')))
             ([], Some (External ''timeout'')))) = None
   \<and> Proxies (fst (snd (Initial toy fresh
          (world_of (Some ([1, 5], Some (External ''input/output error'')))
             ([], Some (External ''timeout'')))))) = [5]"
    using T [THEN conjunct2, THEN conjunct2, THEN conjunct1, rule_format, OF h3]
    by (simp add: toy_defs io_defs parse_def)
  have c4: "snd (parse toy (Initial_firstBuf fresh (world_of None ([], Some (External ''timeout''))))) =
        Some MissingProxiesField
   \<and> snd (Initial_fallbackRead fresh (world_of None ([], Some (External ''timeout'')))) =
        Some (External ''timeout'')
   \<and> writeErr (world_of None ([], Some (External ''timeout''))) (Path (vehicle fresh)) = None"
    using T [THEN conjunct2, THEN conjunct2, THEN conjunct2, rule_format, OF h4]
    by (simp add: toy_defs io_defs parse_def)
  from c1 c2 c3 c4 h4 show ?thesis by (intro conjI) simp_all
qed

subsection \<open>parse\<close>

text \<open>
  C4. The claim: \<^verbatim>\<open>parse\<close> returns an error and no list for a document without a
  \<^verbatim>\<open>proxies\<close> list, for an empty list, and for a list with an entry that
  \<^verbatim>\<open>ParseProxy\<close> rejects; so a \<^verbatim>\<open>pull\<close> or an \<^verbatim>\<open>Initial\<close> that meets such a
  document leaves the published state exactly as it was. \<^verbatim>\<open>parse\<close> and \<^verbatim>\<open>pull\<close> do
  so (\<open>parse_missing_field\<close>, \<open>parse_empty_list\<close>, \<open>parse_entry_error\<close>,
  \<open>pull_parse_error\<close>); \<^verbatim>\<open>Initial\<close> does not. Here there is no cache file and the
  Vehicle serves \<open>[1, 5, 0, 6]\<close>, whose entry 1 is rejected: \<^verbatim>\<open>parse\<close> returns the
  error for index 1 and no list, \<^verbatim>\<open>pull\<close> returns that error and leaves the provider
  as it was, but \<^verbatim>\<open>Initial\<close> reads the Vehicle a second time, returns nil, stores the
  digest of the rejected document and writes the document to the cache file.
\<close>

theorem C4_Initial_keeps_going_after_parse_error:
  "parse toy [1, 5, 0, 6] = ([], Some (ProxyIndexError 1 (External ''unsupported proxy'')))
   \<and> pull toy fresh (world_of None ([1, 5, 0, 6], None)) =
        (Some (ProxyIndexError 1 (External ''unsupported proxy'')), fresh,
         (world_of None ([1, 5, 0, 6], None))\<lparr>nreads := 1\<rparr>)
   \<and> Initial toy fresh (world_of None ([1, 5, 0, 6], None)) =
        (None,
         fresh\<lparr>hash := md5Sum toy [1, 5, 0, 6]\<rparr>,
         (world_of None ([1, 5, 0, 6], None))
           \<lparr>files := [''cache.yaml'' \<mapsto> \<lparr>modTime = 100, readResult = ([1, 5, 0, 6], None)\<rparr>],
            nreads := 2\<rparr>)
   \<and> hash fresh = 0
   \<and> md5Sum toy [1, 5, 0, 6] = 4395631873"
  by (simp add: toy_defs io_defs parse_def pull_def Initial_def setProxies_def setProxy_def Let_def)

subsection \<open>pull\<close>

text \<open>
  C5. When the Vehicle's read fails, or the fetched bytes (whose digest differs from the
  stored hash, so that they are parsed at all) fail to parse, \<^verbatim>\<open>pull\<close> returns that
  error and the provider is exactly what it was: proxies, hash and \<open>updatedAt\<close> are
  unchanged, and so is the file system.
\<close>

theorem C5_pull_failure_keeps_state:
  assumes "snd (served w (nreads w)) = Some e
     \<or> (served w (nreads w) = (buf, None) \<and> hash pp \<noteq> md5Sum d buf \<and> snd (parse d buf) = Some e)"
  shows "fst (pull d pp w) = Some e
     \<and> fst (snd (pull d pp w)) = pp
     \<and> Proxies (fst (snd (pull d pp w))) = Proxies pp
     \<and> hash (fst (snd (pull d pp w))) = hash pp
     \<and> updatedAt (fst (snd (pull d pp w))) = updatedAt pp
     \<and> files (snd (snd (pull d pp w))) = files w"
proof -
  have "pull d pp w = (Some e, pp, w\<lparr>nreads := Suc (nreads w)\<rparr>)"
    using assms pull_fetch_error [of w e d pp] pull_parse_error [of w buf pp d e] by blast
  then show ?thesis by simp
qed

theorem C5_witness:
  "fst (pull toy fresh (world_of None ([], Some (External ''timeout'')))) = Some (External ''timeout'')
   \<and> fst (snd (pull toy fresh (world_of None ([], Some (External ''timeout''))))) = fresh
   \<and> fst (pull toy fresh (world_of None ([1, 5, 0], None))) =
       Some (ProxyIndexError 1 (External ''unsupported proxy''))
   \<and> fst (snd (pull toy fresh (world_of None ([1, 5, 0], None)))) = fresh
   \<and> files (snd (snd (pull toy fresh (world_of None ([1, 5, 0], None))))) = Map.empty"
proof -
  have 1: "snd (served (world_of None ([], Some (External ''timeout'')))
             (nreads (world_of None ([], Some (External ''timeout''))))) = Some (External ''timeout'')"
    by (simp add: world_of_def)
  have 2: "served (world_of None ([1, 5, 0], None)) (nreads (world_of None ([1, 5, 0], None)))
             = ([1, 5, 0], None)
        \<and> hash fresh \<noteq> md5Sum toy [1, 5, 0]
        \<and> snd (parse toy [1, 5, 0]) = Some (ProxyIndexError 1 (External ''unsupported proxy''))"
    by (simp add: toy_defs parse_def)
  have 3: "files (world_of None ([1, 5, 0], None)) = Map.empty"
    by (simp add: world_of_def)
  from C5_pull_failure_keeps_state [OF disjI1, OF 1, of toy fresh]
    C5_pull_failure_keeps_state [OF disjI2, OF 2] 3
  show ?thesis by simp
qed

text \<open>
  C6. When \<^verbatim>\<open>pull\<close> fetches bytes \<open>B2\<close> whose digest differs from the stored hash and
  that parse to \<open>ps\<close>, then \<open>ps\<close> is not empty and holds the proxies of the document's
  entries in their order; if the write of the cache file fails, \<^verbatim>\<open>pull\<close> returns that
  error with hash and proxies untouched (the write comes first); if it goes through, the
  cache file holds exactly \<open>B2\<close>, the hash is the digest of \<open>B2\<close> and the published
  proxies are \<open>ps\<close>. After two pulls, the first fetching a valid \<open>B1\<close> and the second a
  valid \<open>B2'\<close> with another digest, the proxies are those of \<open>B2'\<close>, the hash is its
  digest and the cache file holds it.
\<close>

theorem C6_pull_publishes_changed_content:
  "(served w (nreads w) = (B2, None) \<and> hash pp \<noteq> md5Sum d B2 \<and> parse d B2 = (ps, None) \<longrightarrow>
      ps \<noteq> []
      \<and> (\<exists>ms. yamlUnmarshal d B2 = Inr (Some ms) \<and> map (ParseProxy d) ms = map Inr ps)
      \<and> (case writeErr w (Path (vehicle pp)) of
             Some e \<Rightarrow> fst (pull d pp w) = Some e \<and> fst (snd (pull d pp w)) = pp
           | None \<Rightarrow>
               pull d pp w =
                 (None,
                  pp\<lparr>hash := md5Sum d B2, proxies := ps,
                     healthCheck := (healthCheck pp)\<lparr>targets := ps\<rparr>,
                     updatedAt := Some (clock w)\<rparr>,
                  w\<lparr>files := (files w)(Path (vehicle pp) \<mapsto>
                                 \<lparr>modTime = clock w, readResult = (B2, None)\<rparr>),
                    nreads := Suc (nreads w)\<rparr>)))
   \<and> (served w1 (nreads w1) = (B1, None) \<and> snd (parse d B1) = None
        \<and> writeErr w1 (Path (vehicle pp0)) = None
        \<and> served w2 (nreads w2) = (B2', None) \<and> parse d B2' = (ps', None)
        \<and> writeErr w2 (Path (vehicle pp0)) = None
        \<and> md5Sum d B1 \<noteq> md5Sum d B2' \<longrightarrow>
      (let r1 = pull d pp0 w1; r2 = pull d (fst (snd r1)) w2
       in fst r1 = None \<and> fst r2 = None
        \<and> Proxies (fst (snd r2)) = ps'
        \<and> hash (fst (snd r2)) = md5Sum d B2'
        \<and> files (snd (snd r2)) (Path (vehicle pp0)) =
             Some \<lparr>modTime = clock w2, readResult = (B2', None)\<rparr>))"
proof (intro conjI impI)
  assume h: "served w (nreads w) = (B2, None) \<and> hash pp \<noteq> md5Sum d B2 \<and> parse d B2 = (ps, None)"
  from parse_ok_D [of d B2 ps] h show "ps \<noteq> []" by blast
  from parse_ok_D [of d B2 ps] h
  show "\<exists>ms. yamlUnmarshal d B2 = Inr (Some ms) \<and> map (ParseProxy d) ms = map Inr ps" by blast
  show "case writeErr w (Path (vehicle pp)) of
             Some e \<Rightarrow> fst (pull d pp w) = Some e \<and> fst (snd (pull d pp w)) = pp
           | None \<Rightarrow>
               pull d pp w =
                 (None,
                  pp\<lparr>hash := md5Sum d B2, proxies := ps,
                     healthCheck := (healthCheck pp)\<lparr>targets := ps\<rparr>,
                     updatedAt := Some (clock w)\<rparr>,
                  w\<lparr>files := (files w)(Path (vehicle pp) \<mapsto>
                                 \<lparr>modTime = clock w, readResult = (B2, None)\<rparr>),
                    nreads := Suc (nreads w)\<rparr>)"
  proof (cases "writeErr w (Path (vehicle pp))")
    case None
    with h pull_publish [of w B2 pp d ps] show ?thesis by simp
  next
    case (Some e)
    with h pull_write_error [of w B2 pp d e] show ?thesis by simp
  qed
next
  assume h: "served w1 (nreads w1) = (B1, None) \<and> snd (parse d B1) = None
        \<and> writeErr w1 (Path (vehicle pp0)) = None
        \<and> served w2 (nreads w2) = (B2', None) \<and> parse d B2' = (ps', None)
        \<and> writeErr w2 (Path (vehicle pp0)) = None
        \<and> md5Sum d B1 \<noteq> md5Sum d B2'"
  define pp1 where "pp1 = fst (snd (pull d pp0 w1))"
  from h pull_valid_hash [of w1 B1 d pp0]
  have 1: "fst (pull d pp0 w1) = None" "hash pp1 = md5Sum d B1"
    by (simp_all add: pp1_def)
  have v: "vehicle pp1 = vehicle pp0"
    by (simp add: pp1_def pull_vehicle)
  from h 1 have "hash pp1 \<noteq> md5Sum d B2'" by simp
  with h v pull_publish [of w2 B2' pp1 d ps']
  have 2: "pull d pp1 w2 =
     (None,
      pp1\<lparr>hash := md5Sum d B2', proxies := ps', healthCheck := (healthCheck pp1)\<lparr>targets := ps'\<rparr>,
         updatedAt := Some (clock w2)\<rparr>,
      w2\<lparr>files := (files w2)(Path (vehicle pp0) \<mapsto> \<lparr>modTime = clock w2, readResult = (B2', None)\<rparr>),
        nreads := Suc (nreads w2)\<rparr>)"
    by simp
  show "let r1 = pull d pp0 w1; r2 = pull d (fst (snd r1)) w2
       in fst r1 = None \<and> fst r2 = None
        \<and> Proxies (fst (snd r2)) = ps'
        \<and> hash (fst (snd r2)) = md5Sum d B2'
        \<and> files (snd (snd r2)) (Path (vehicle pp0)) =
             Some \<lparr>modTime = clock w2, readResult = (B2', None)\<rparr>"
    using 1(1) 2 by (simp add: Let_def pp1_def Proxies_def)
qed

theorem C6_witness:
  "pull toy fresh (world_of None ([1, 5, 6], None)) =
     (None,
      fresh\<lparr>hash := md5Sum toy [1, 5, 6], proxies := [5, 6],
            healthCheck := \<lparr>targets = [5, 6]\<rparr>, updatedAt := Some 100\<rparr>,
      (world_of None ([1, 5, 6], None))
        \<lparr>files := [''cache.yaml'' \<mapsto> \<lparr>modTime = 100, readResult = ([1, 5, 6], None)\<rparr>],
         nreads := 1\<rparr>)
   \<and> fst (pull toy fresh (readonly (world_of None ([1, 5, 6], None)))) =
       Some (External ''read-only file system'')
   \<and> fst (snd (pull toy fresh (readonly (world_of None ([1, 5, 6], None))))) = fresh
   \<and> (let r1 = pull toy fresh (world_of None ([1, 5, 6], None));
           r2 = pull toy (fst (snd r1)) (world_of None ([1, 7], None))
       in fst r1 = None \<and> fst r2 = None
        \<and> Proxies (fst (snd r2)) = [7]
        \<and> hash (fst (snd r2)) = md5Sum toy [1, 7]
        \<and> files (snd (snd r2)) ''cache.yaml'' = Some \<lparr>modTime = 100, readResult = ([1, 7], None)\<rparr>)"
proof -
  have p1: "parse toy [1, 5, 6] = ([5, 6], None)" and p2: "parse toy [1, 7] = ([7], None)"
    by (simp_all add: parse_def toy_defs)
  have h: "hash fresh \<noteq> md5Sum toy [1, 5, 6]" "md5Sum toy [1, 5, 6] \<noteq> md5Sum toy [1, 7]"
    by (simp_all add: toy_defs)
  have a: "served (world_of None ([1, 5, 6], None)) (nreads (world_of None ([1, 5, 6], None)))
             = ([1, 5, 6], None) \<and> hash fresh \<noteq> md5Sum toy [1, 5, 6]
           \<and> parse toy [1, 5, 6] = ([5, 6], None)"
    using p1 h by (simp add: world_of_def)
  have b: "served (readonly (world_of None ([1, 5, 6], None)))
               (nreads (readonly (world_of None ([1, 5, 6], None))))
             = ([1, 5, 6], None) \<and> hash fresh \<noteq> md5Sum toy [1, 5, 6]
           \<and> parse toy [1, 5, 6] = ([5, 6], None)"
    using p1 h by (simp add: world_of_def readonly_def)
  have c: "served (world_of None ([1, 5, 6], None)) (nreads (world_of None ([1, 5, 6], None)))
               = ([1, 5, 6], None)
        \<and> snd (parse toy [1, 5, 6]) = None
        \<and> writeErr (world_of None ([1, 5, 6], None)) (Path (vehicle fresh)) = None
        \<and> served (world_of None ([1, 7], None)) (nreads (world_of None ([1, 7], None))) = ([1, 7], None)
        \<and> parse toy [1, 7] = ([7], None)
        \<and> writeErr (world_of None ([1, 7], None)) (Path (vehicle fresh)) = None
        \<and> md5Sum toy [1, 5, 6] \<noteq> md5Sum toy [1, 7]"
    using p1 p2 h by (simp add: world_of_def)
  note T = C6_pull_publishes_changed_content
  from T [THEN conjunct1, rule_format, OF a]
  have 1: "pull toy fresh (world_of None ([1, 5, 6], None)) =
     (None,
      fresh\<lparr>hash := md5Sum toy [1, 5, 6], proxies := [5, 6],
            healthCheck := \<lparr>targets = [5, 6]\<rparr>, updatedAt := Some 100\<rparr>,
      (world_of None ([1, 5, 6], None))
        \<lparr>files := [''cache.yaml'' \<mapsto> \<lparr>modTime = 100, readResult = ([1, 5, 6], None)\<rparr>],
         nreads := 1\<rparr>)"
    by (simp add: world_of_def fresh_def)
  from T [THEN conjunct1, rule_format, OF b]
  have 2: "fst (pull toy fresh (readonly (world_of None ([1, 5, 6], None)))) =
       Some (External ''read-only file system'')
   \<and> fst (snd (pull toy fresh (readonly (world_of None ([1, 5, 6], None))))) = fresh"
    by (simp add: world_of_def readonly_def)
  from T [THEN conjunct2, rule_format, OF c]
  have 3: "let r1 = pull toy fresh (world_of None ([1, 5, 6], None));
           r2 = pull toy (fst (snd r1)) (world_of None ([1, 7], None))
       in fst r1 = None \<and> fst r2 = None
        \<and> Proxies (fst (snd r2)) = [7]
        \<and> hash (fst (snd r2)) = md5Sum toy [1, 7]
        \<and> files (snd (snd r2)) ''cache.yaml'' = Some \<lparr>modTime = 100, readResult = ([1, 7], None)\<rparr>"
    by (simp add: world_of_def fresh_def)
  from 1 2 3 show ?thesis by blast
qed

text \<open>
  C7. Two calls of \<^verbatim>\<open>pull\<close> while the Vehicle serves bytes whose digest is the stored
  hash: each returns nil and sets \<open>updatedAt\<close> to the time of the call; nothing else of
  the provider changes (proxies, hash, health-check targets), and no file is written.
\<close>

theorem C7_pull_unchanged_content:
  assumes "served w1 (nreads w1) = (B, None)" and "served w2 (nreads w2) = (B, None)"
    and "hash pp = md5Sum d B"
  shows "(let r1 = pull d pp w1; pp1 = fst (snd r1);
              r2 = pull d pp1 w2; pp2 = fst (snd r2)
          in pp1 = pp\<lparr>updatedAt := Some (clock w1)\<rparr> \<and> pp2 = pp\<lparr>updatedAt := Some (clock w2)\<rparr>
           \<and> fst r1 = None \<and> fst r2 = None
           \<and> updatedAt pp1 = Some (clock w1) \<and> updatedAt pp2 = Some (clock w2)
           \<and> Proxies pp1 = Proxies pp \<and> Proxies pp2 = Proxies pp
           \<and> hash pp1 = hash pp \<and> hash pp2 = hash pp
           \<and> files (snd (snd r1)) = files w1 \<and> files (snd (snd r2)) = files w2)"
proof -
  have 1: "pull d pp w1 = (None, pp\<lparr>updatedAt := Some (clock w1)\<rparr>, w1\<lparr>nreads := Suc (nreads w1)\<rparr>)"
    by (rule pull_same_digest [OF assms(1,3)])
  have "hash (pp\<lparr>updatedAt := Some (clock w1)\<rparr>) = md5Sum d B"
    using assms(3) by simp
  from pull_same_digest [OF assms(2) this]
  have 2: "pull d (pp\<lparr>updatedAt := Some (clock w1)\<rparr>) w2 =
      (None, pp\<lparr>updatedAt := Some (clock w2)\<rparr>, w2\<lparr>nreads := Suc (nreads w2)\<rparr>)"
    by simp
  show ?thesis
    by (simp add: Let_def 1 2 Proxies_def)
qed

theorem C7_witness:
  "(let r1 = pull toy loaded (world_of None ([1, 5, 6], None)); pp1 = fst (snd r1);
        r2 = pull toy pp1 ((world_of None ([1, 5, 6], None))\<lparr>clock := 200\<rparr>); pp2 = fst (snd r2)
    in fst r1 = None \<and> fst r2 = None
     \<and> updatedAt pp1 = Some 100 \<and> updatedAt pp2 = Some 200
     \<and> Proxies pp1 = [5, 6] \<and> Proxies pp2 = [5, 6]
     \<and> hash pp1 = hash loaded \<and> hash pp2 = hash loaded)"
proof -
  have 1: "served (world_of None ([1, 5, 6], None)) (nreads (world_of None ([1, 5, 6], None)))
      = ([1, 5, 6], None)"
    by (simp add: world_of_def)
  have 2: "served ((world_of None ([1, 5, 6], None))\<lparr>clock := 200\<rparr>)
       (nreads ((world_of None ([1, 5, 6], None))\<lparr>clock := 200\<rparr>)) = ([1, 5, 6], None)"
    by (simp add: world_of_def)
  have 3: "hash loaded = md5Sum toy [1, 5, 6]"
    by (simp add: loaded_eq)
  have 4: "proxies loaded = [5, 6]"
    by (simp add: loaded_eq)
  have 5: "clock (world_of None ([1, 5, 6], None)) = 100"
    by (simp add: world_of_def)
  note F = C7_pull_unchanged_content [OF 1 2 3, unfolded Let_def Proxies_def]
  from F 5 have E: "fst (snd (pull toy loaded (world_of None ([1, 5, 6], None)))) =
      loaded\<lparr>updatedAt := Some 100\<rparr>"
    by simp
  show ?thesis
    using F 4 5 unfolding Let_def Proxies_def E by simp
qed

subsection \<open>CompatibleProvider\<close>

text \<open>
  C8. \<^verbatim>\<open>NewCompatibleProvider\<close> with an empty list returns the error "Provider need one
  proxy at least" and no provider. With a non-empty list it returns a provider holding
  that list and no error, and on that provider \<^verbatim>\<open>Initial\<close>, \<^verbatim>\<open>Reload\<close> and
  \<^verbatim>\<open>Update\<close> each return nil and leave the provider, and so its proxies, as they were.
\<close>

theorem C8_compatible_provider:
  "NewCompatibleProvider nm ([] :: 'p list) hc = (None, Some NeedOneProxy)
   \<and> (ps \<noteq> [] \<longrightarrow>
        (\<exists>cp. NewCompatibleProvider nm ps hc = (Some cp, None)
           \<and> cp_Proxies cp = ps
           \<and> cp_Initial cp = (None, cp) \<and> cp_Reload cp = (None, cp) \<and> cp_Update cp = (None, cp)
           \<and> cp_Proxies (snd (cp_Initial cp)) = ps
           \<and> cp_Proxies (snd (cp_Reload cp)) = ps
           \<and> cp_Proxies (snd (cp_Update cp)) = ps))"
  by (simp add: NewCompatibleProvider_def cp_Proxies_def cp_Initial_def cp_Reload_def
      cp_Update_def)

theorem C8_witness:
  "NewCompatibleProvider ''static'' ([] :: nat list) \<lparr>targets = []\<rparr> = (None, Some NeedOneProxy)
   \<and> (\<exists>cp. NewCompatibleProvider ''static'' [5, 6 :: nat] \<lparr>targets = []\<rparr> = (Some cp, None)
           \<and> cp_Proxies cp = [5, 6]
           \<and> cp_Initial cp = (None, cp) \<and> cp_Reload cp = (None, cp) \<and> cp_Update cp = (None, cp)
           \<and> cp_Proxies (snd (cp_Initial cp)) = [5, 6]
           \<and> cp_Proxies (snd (cp_Reload cp)) = [5, 6]
           \<and> cp_Proxies (snd (cp_Update cp)) = [5, 6])"
  using C8_compatible_provider [of "''static''" "\<lparr>targets = []\<rparr>" "[5, 6 :: nat]"]
  by simp

subsection \<open>parseVmessAddr\<close>

text \<open>
  In the three recognised cases the address is never empty, so an empty \<open>da_Addr\<close> is
  the nil slice of the source.
\<close>

lemma parseVmessAddr_recognized_nonempty:
  "md_AddrType metadata = C_AtypIPv4 E \<or> md_AddrType metadata = C_AtypIPv6 E
     \<or> md_AddrType metadata = C_AtypDomainName E \<Longrightarrow>
   da_Addr (parseVmessAddr E metadata) \<noteq> []"
  by (auto simp: parseVmessAddr_def copy_def)

text \<open>
  C9. For a Metadata whose \<^verbatim>\<open>AddrType\<close> is none of the IPv4, IPv6 and domain-name
  kinds, \<^verbatim>\<open>parseVmessAddr\<close> returns (it has no error result) a \<^verbatim>\<open>DstAddr\<close> whose
  \<^verbatim>\<open>AddrType\<close> is the zero byte and whose \<^verbatim>\<open>Addr\<close> is nil.
\<close>

theorem C9_unrecognized_addr_type:
  assumes "md_AddrType metadata \<noteq> C_AtypIPv4 E"
    and "md_AddrType metadata \<noteq> C_AtypIPv6 E"
    and "md_AddrType metadata \<noteq> C_AtypDomainName E"
  shows "da_AddrType (parseVmessAddr E metadata) = 0 \<and> da_Addr (parseVmessAddr E metadata) = []"
  using assms by (simp add: parseVmessAddr_def)

theorem C9_witness:
  "da_AddrType (parseVmessAddr toy_env
      \<lparr>md_NetWork = 0, md_AddrType = 0, md_DstIP = [10, 0, 0, 1], md_DstPort = ''443'',
        md_Host = ''example.org''\<rparr>) = 0
   \<and> da_Addr (parseVmessAddr toy_env
      \<lparr>md_NetWork = 0, md_AddrType = 0, md_DstIP = [10, 0, 0, 1], md_DstPort = ''443'',
        md_Host = ''example.org''\<rparr>) = []"
  using C9_unrecognized_addr_type [of
      "\<lparr>md_NetWork = 0, md_AddrType = 0, md_DstIP = [10, 0, 0, 1], md_DstPort = ''443'',
        md_Host = ''example.org''\<rparr>" toy_env]
  by (simp add: toy_env_def)

end
